theory Spec2Isabelle
  imports Main "HOL-Library.Sublist"
begin

section \<open>The schema model of \<^verbatim>\<open>generate_ast.py\<close>\<close>

text \<open>
  The three \<^verbatim>\<open>StrEnum\<close> classes. A member of a \<^verbatim>\<open>StrEnum\<close> formats (in an f-string and
  under \<^verbatim>\<open>str\<close>) as its value; iterating the class yields the members in the order in
  which they are declared.
\<close>

datatype Expression_Type = ASSIGN | BINARY | GROUPING | LITERAL | UNARY | VARIABLE

datatype Statement_Type = EXPR | PRINT | VAR

datatype Parameter_Type = EXPRESSION | TOKEN | OBJECT

fun Expression_Type_value :: "Expression_Type \<Rightarrow> string" where
  "Expression_Type_value ASSIGN = ''Assign''"
| "Expression_Type_value BINARY = ''Binary''"
| "Expression_Type_value GROUPING = ''Grouping''"
| "Expression_Type_value LITERAL = ''Literal''"
| "Expression_Type_value UNARY = ''Unary''"
| "Expression_Type_value VARIABLE = ''Variable''"

fun Statement_Type_value :: "Statement_Type \<Rightarrow> string" where
  "Statement_Type_value EXPR = ''Expr''"
| "Statement_Type_value PRINT = ''Print''"
| "Statement_Type_value VAR = ''Var''"

fun Parameter_Type_value :: "Parameter_Type \<Rightarrow> string" where
  "Parameter_Type_value EXPRESSION = ''Expression''"
| "Parameter_Type_value TOKEN = ''Token''"
| "Parameter_Type_value OBJECT = ''Object''"

text \<open>
  The field \<^verbatim>\<open>name\<close> of \<^verbatim>\<open>AST_Class\<close> is annotated \<^verbatim>\<open>Expression_Type | Statement_Type\<close>:
  a tag of either enumeration. \<^verbatim>\<open>type(tag)\<close> is the enumeration class the tag belongs to.
\<close>

datatype tag = Expression_tag Expression_Type | Statement_tag Statement_Type

datatype enum_class = Expression_Type_class | Statement_Type_class

fun type_of_tag :: "tag \<Rightarrow> enum_class" where
  "type_of_tag (Expression_tag _) = Expression_Type_class"
| "type_of_tag (Statement_tag _) = Statement_Type_class"

fun tag_str :: "tag \<Rightarrow> string" where
  "tag_str (Expression_tag e) = Expression_Type_value e"
| "tag_str (Statement_tag s) = Statement_Type_value s"

text \<open>Iteration over an enumeration class: its members in declaration order.\<close>

fun enum_members :: "enum_class \<Rightarrow> tag list" where
  "enum_members Expression_Type_class =
     map Expression_tag [ASSIGN, BINARY, GROUPING, LITERAL, UNARY, VARIABLE]"
| "enum_members Statement_Type_class = map Statement_tag [EXPR, PRINT, VAR]"

record Parameter =
  param_type :: Parameter_Type
  param_name :: string

record AST_Class =
  base_name :: string
  name :: tag
  parameters :: "Parameter list"

text \<open>\<^verbatim>\<open>sep.join(xs)\<close> of Python.\<close>

fun join_str :: "string \<Rightarrow> string list \<Rightarrow> string" where
  "join_str sep [] = []"
| "join_str sep [x] = x"
| "join_str sep (x # y # ys) = x @ sep @ join_str sep (y # ys)"

text \<open>\<^verbatim>\<open>Parameter.__str__\<close>\<close>

definition Parameter_str :: "Parameter \<Rightarrow> string" where
  "Parameter_str p = Parameter_Type_value (param_type p) @ '' '' @ param_name p"

subsection \<open>The text fragments of one class block\<close>

definition generate_class_decl :: "AST_Class \<Rightarrow> string" where
  "generate_class_decl self =
     ''  static class '' @ tag_str (name self) @ '' extends '' @ base_name self @ '' {\<newline>''"

definition generate_constructor_decl :: "AST_Class \<Rightarrow> string" where
  "generate_constructor_decl self =
     (let params = map Parameter_str (parameters self)
      in ''    '' @ tag_str (name self) @ ''('' @ join_str '', '' params @ '') {\<newline>'')"

definition generate_fields :: "AST_Class \<Rightarrow> string" where
  "generate_fields self =
     join_str []
       (map (\<lambda>p. ''        this.'' @ param_name p @ '' = '' @ param_name p @ '';\<newline>'')
          (parameters self))"

definition generate_constructor_end :: "AST_Class \<Rightarrow> string" where
  "generate_constructor_end self = ''    }\<newline>\<newline>''"

definition generate_visitor_method :: "AST_Class \<Rightarrow> string" where
  "generate_visitor_method self =
     (let override = ''    @Override\<newline>'';
          accept = ''    <R> R accept(Visitor<R> visitor) {\<newline>'';
          ret = ''        return visitor.visit'' @ tag_str (name self) @ base_name self
                @ ''(this);\<newline>'';
          end = ''    }\<newline>\<newline>''
      in join_str [] [override, accept, ret, end])"

definition generate_final_fields :: "AST_Class \<Rightarrow> string" where
  "generate_final_fields self =
     join_str [] (map (\<lambda>p. ''    final '' @ Parameter_str p @ '';\<newline>'') (parameters self))"

definition generate_class_end :: "AST_Class \<Rightarrow> string" where
  "generate_class_end self = ''  }\<newline>\<newline>''"

text \<open>\<^verbatim>\<open>AST_Class.__str__\<close>\<close>

definition AST_Class_str :: "AST_Class \<Rightarrow> string" where
  "AST_Class_str self =
     join_str []
       [generate_class_decl self,
        generate_constructor_decl self,
        generate_fields self,
        generate_constructor_end self,
        generate_visitor_method self,
        generate_final_fields self,
        generate_class_end self]"

section \<open>The catalog\<close>

definition build_expressions :: "string \<Rightarrow> AST_Class list" where
  "build_expressions bn =
     (let assign = \<lparr>base_name = bn, name = Expression_tag ASSIGN, parameters =
                      [\<lparr>param_type = TOKEN, param_name = ''name''\<rparr>,
                       \<lparr>param_type = EXPRESSION, param_name = ''value''\<rparr>]\<rparr>;
          binary = \<lparr>base_name = bn, name = Expression_tag BINARY, parameters =
                      [\<lparr>param_type = EXPRESSION, param_name = ''left''\<rparr>,
                       \<lparr>param_type = TOKEN, param_name = ''operator''\<rparr>,
                       \<lparr>param_type = EXPRESSION, param_name = ''right''\<rparr>]\<rparr>;
          grouping = \<lparr>base_name = bn, name = Expression_tag GROUPING, parameters =
                      [\<lparr>param_type = EXPRESSION, param_name = ''expression''\<rparr>]\<rparr>;
          literal = \<lparr>base_name = bn, name = Expression_tag LITERAL, parameters =
                      [\<lparr>param_type = OBJECT, param_name = ''value''\<rparr>]\<rparr>;
          unary = \<lparr>base_name = bn, name = Expression_tag UNARY, parameters =
                      [\<lparr>param_type = TOKEN, param_name = ''operator''\<rparr>,
                       \<lparr>param_type = EXPRESSION, param_name = ''right''\<rparr>]\<rparr>;
          variable = \<lparr>base_name = bn, name = Expression_tag VARIABLE, parameters =
                      [\<lparr>param_type = TOKEN, param_name = ''name''\<rparr>]\<rparr>
      in [assign, binary, grouping, literal, unary, variable])"

definition build_statements :: "string \<Rightarrow> AST_Class list" where
  "build_statements bn =
     (let expr = \<lparr>base_name = bn, name = Statement_tag EXPR, parameters =
                      [\<lparr>param_type = EXPRESSION, param_name = ''expression''\<rparr>]\<rparr>;
          prnt = \<lparr>base_name = bn, name = Statement_tag PRINT, parameters =
                      [\<lparr>param_type = EXPRESSION, param_name = ''expression''\<rparr>]\<rparr>;
          vrbl = \<lparr>base_name = bn, name = Statement_tag VAR, parameters =
                      [\<lparr>param_type = TOKEN, param_name = ''name''\<rparr>,
                       \<lparr>param_type = EXPRESSION, param_name = ''initializer''\<rparr>]\<rparr>
      in [expr, prnt, vrbl])"

text \<open>The default values of the parameter \<^verbatim>\<open>base_name\<close> of the two builders.\<close>

definition build_expressions_default :: "AST_Class list" where
  "build_expressions_default = build_expressions ''Expression''"

definition build_statements_default :: "AST_Class list" where
  "build_statements_default = build_statements ''Statement''"

section \<open>The emitter\<close>

text \<open>
  \<^verbatim>\<open>str.casefold\<close>. The strings of the model are the texts as they stand in the written
  file, which is encoded in UTF-8: a character below 128 is an ASCII character, and a
  character of Python outside ASCII is a run of characters from 128 on. On ASCII text
  \<^verbatim>\<open>str.casefold\<close> turns the letters A to Z into a to z and leaves every other character
  as it is. On any other text it is the case folding of Unicode, a table of the Python
  library and no part of this repository: it is the parameter \<open>unicode_fold\<close> of
  \<open>casefold\<close> and of every function that reaches it.
\<close>

definition is_ascii :: "char \<Rightarrow> bool" where
  "is_ascii c = (of_char c < (128 :: nat))"

definition casefold_char :: "char \<Rightarrow> char" where
  "casefold_char c =
     (case map_of (zip ''ABCDEFGHIJKLMNOPQRSTUVWXYZ'' ''abcdefghijklmnopqrstuvwxyz'') c of
        Some l \<Rightarrow> l
      | None \<Rightarrow> c)"

definition casefold :: "(string \<Rightarrow> string) \<Rightarrow> string \<Rightarrow> string" where
  "casefold unicode_fold s =
     (if list_all is_ascii s then map casefold_char s else unicode_fold s)"

definition generate_visitor_interface ::
  "(string \<Rightarrow> string) \<Rightarrow> string \<Rightarrow> string list \<Rightarrow> string" where
  "generate_visitor_interface unicode_fold bn expression_types =
     (let start = ''  interface Visitor<R> {\<newline>'';
          types = join_str []
                    (map (\<lambda>nm. ''    R visit'' @ nm @ bn @ ''('' @ nm @ '' ''
                                @ casefold unicode_fold bn
                                @ '');\<newline>'')
                       expression_types);
          end = ''  }\<newline>\<newline>''
      in start @ types @ end)"

definition base_accept_method :: "string" where
  "base_accept_method =
     (let comment = ''  // Base accept method\<newline>'';
          method = ''  abstract <R> R accept(Visitor<R> visitor);\<newline>''
      in comment @ method)"

text \<open>
  \<^verbatim>\<open>os.path.join\<close> with two components on a POSIX system: an absolute second component
  replaces the first; otherwise the two are concatenated, with a separator unless the
  first is empty or already ends in one.
\<close>

definition path_join :: "string \<Rightarrow> string \<Rightarrow> string" where
  "path_join a b =
     (if prefix ''/'' b then b
      else if a = [] \<or> last a = CHR ''/'' then a @ b
      else a @ ''/'' @ b)"

text \<open>
  The world outside the process: the text files by path, the text written to the error
  stream so far, and the paths at which opening a file for writing fails (a missing
  directory, a read-only location).
\<close>

record world =
  files :: "string \<rightharpoonup> string"
  err_stream :: string
  unwritable :: "string set"

datatype error = IndexError | OSError | SystemExit nat

text \<open>The two operations on the text of an open file.\<close>

definition f_write :: "string \<Rightarrow> string \<Rightarrow> string" where
  "f_write f s = f @ s"

definition f_writelines :: "string \<Rightarrow> string list \<Rightarrow> string" where
  "f_writelines f ls = foldl f_write f ls"

text \<open>
  \<^verbatim>\<open>define_ast\<close>. The path is computed first, then \<^verbatim>\<open>ast[0]\<close> is read, which raises
  \<^verbatim>\<open>IndexError\<close> on the empty list before any file is opened. Opening with mode
  \<^verbatim>\<open>"w"\<close> starts from the empty text whatever the file held; the \<^verbatim>\<open>with\<close> block closes
  the file, which then holds all that was written.
\<close>

definition define_ast ::
  "(string \<Rightarrow> string) \<Rightarrow> string \<Rightarrow> string \<Rightarrow> AST_Class list \<Rightarrow> world \<Rightarrow> (error + unit) \<times> world"
  where
  "define_ast unicode_fold output_dir bn ast w =
     (let filepath = path_join output_dir (bn @ ''.java'')
      in case ast of
           [] \<Rightarrow> (Inl IndexError, w)
         | first # _ \<Rightarrow>
             (let enum_type = type_of_tag (name first);
                  header =
                    [''// This file was generated using tool/generate_ast.py any changes made\<newline>// here may be overwritten.\<newline>'',
                     ''package com.cthuloops.jlox;\<newline>\<newline>'',
                     ''import java.util.List;\<newline>\<newline>'',
                     ''abstract class '' @ bn @ '' {\<newline>'']
              in if filepath \<in> unwritable w then (Inl OSError, w)
                 else
                   (let f0 = [];
                        f1 = f_writelines f0 header;
                        f2 = f_write f1 (generate_visitor_interface unicode_fold bn
                                         (map tag_str (enum_members enum_type)));
                        f3 = foldl (\<lambda>f item. f_write f (AST_Class_str item)) f2 ast;
                        f4 = f_write f3 base_accept_method;
                        f5 = f_write f4 ''}\<newline>''
                    in (Inr (), w\<lparr>files := (files w)(filepath \<mapsto> f5)\<rparr>))))"

text \<open>
  \<^verbatim>\<open>main\<close>, given \<^verbatim>\<open>sys.argv\<close> (the script path followed by the positional arguments).
  \<^verbatim>\<open>print(..., file=sys.stderr)\<close> appends a line to the error stream and \<^verbatim>\<open>exit(64)\<close>
  raises \<^verbatim>\<open>SystemExit\<close>. An exception of the first \<^verbatim>\<open>define_ast\<close> ends \<^verbatim>\<open>main\<close>.
\<close>

definition main :: "(string \<Rightarrow> string) \<Rightarrow> string list \<Rightarrow> world \<Rightarrow> (error + unit) \<times> world" where
  "main unicode_fold argv w =
     (if length argv \<noteq> 2
      then (Inl (SystemExit 64),
            w\<lparr>err_stream := err_stream w @ ''Usage: generate_ast <output directory>'' @ ''\<newline>''\<rparr>)
      else
        (case define_ast unicode_fold (argv ! 1) ''Expression'' build_expressions_default w of
           (Inl e, w1) \<Rightarrow> (Inl e, w1)
         | (Inr _, w1) \<Rightarrow>
             define_ast unicode_fold (argv ! 1) ''Statement'' build_statements_default w1))"

text \<open>The exit status of the process: that of \<^verbatim>\<open>SystemExit\<close>, 1 after any other uncaught
  exception, 0 after a normal return.\<close>

fun exit_status :: "error + unit \<Rightarrow> nat" where
  "exit_status (Inl (SystemExit n)) = n"
| "exit_status (Inl _) = 1"
| "exit_status (Inr _) = 0"

section \<open>Reading the emitted text\<close>

text \<open>The text of the output file of a family after \<^verbatim>\<open>define_ast\<close> has run.\<close>

definition emitted_text ::
  "(string \<Rightarrow> string) \<Rightarrow> string \<Rightarrow> string \<Rightarrow> AST_Class list \<Rightarrow> world \<Rightarrow> string option" where
  "emitted_text unicode_fold output_dir bn ast w =
     files (snd (define_ast unicode_fold output_dir bn ast w))
       (path_join output_dir (bn @ ''.java''))"

text \<open>The lines of a text: the pieces between line breaks.\<close>

fun lines_acc :: "string \<Rightarrow> string \<Rightarrow> string list" where
  "lines_acc cur [] = [cur]"
| "lines_acc cur (c # cs) =
     (if c = CHR 0x0A then cur # lines_acc [] cs else lines_acc (cur @ [c]) cs)"

definition lines_of :: "string \<Rightarrow> string list" where
  "lines_of text = lines_acc [] text"

text \<open>
  The visitor-interface block of an emitted text: the lines after the line that opens the
  interface, up to the line that closes it. These lines are the method declarations of
  the interface.
\<close>

definition visitor_block :: "string list \<Rightarrow> string list" where
  "visitor_block ls =
     takeWhile (\<lambda>l. l \<noteq> ''  }'') (tl (dropWhile (\<lambda>l. l \<noteq> ''  interface Visitor<R> {'') ls))"

definition visitor_methods :: "string \<Rightarrow> string list" where
  "visitor_methods text = visitor_block (lines_of text)"

definition visitor_method_count :: "string \<Rightarrow> nat" where
  "visitor_method_count text = length (visitor_methods text)"

text \<open>
  The name of the visitor method of a tag in a family, and the declaration of a method
  with one parameter, as it stands in the interface.
\<close>

definition method_name :: "string \<Rightarrow> string \<Rightarrow> string" where
  "method_name bn tg = ''visit'' @ tg @ bn"

definition method_decl :: "string \<Rightarrow> string \<Rightarrow> string \<Rightarrow> string" where
  "method_decl mname ptype pname = ''    R '' @ mname @ ''('' @ ptype @ '' '' @ pname @ '');''"

definition visitor_decl :: "(string \<Rightarrow> string) \<Rightarrow> string \<Rightarrow> tag \<Rightarrow> string" where
  "visitor_decl unicode_fold bn t =
     method_decl (method_name bn (tag_str t)) (tag_str t) (casefold unicode_fold bn)"

text \<open>How many lines of a text declare a method of a given name.\<close>

definition declares :: "string \<Rightarrow> string \<Rightarrow> bool" where
  "declares mname l = prefix (''    R '' @ mname @ ''('') l"

definition declaration_count :: "string \<Rightarrow> string \<Rightarrow> nat" where
  "declaration_count mname text = length (filter (declares mname) (visitor_methods text))"

text \<open>The distinct tags of a variant list, in the order of their first occurrence.\<close>

fun first_occurrences :: "tag list \<Rightarrow> tag list \<Rightarrow> tag list" where
  "first_occurrences seen [] = []"
| "first_occurrences seen (t # ts) =
     (if t \<in> set seen then first_occurrences seen ts
      else t # first_occurrences (t # seen) ts)"

definition distinct_tags :: "AST_Class list \<Rightarrow> tag list" where
  "distinct_tags ast = first_occurrences [] (map name ast)"

text \<open>A world with no file, an empty error stream, and every path writable.\<close>

definition empty_world :: world where
  "empty_world = \<lparr>files = Map.empty, err_stream = [], unwritable = {}\<rparr>"

text \<open>
  The pieces of a class block as the specification words them: the constructor
  parameters, each field rendered as kind and name; the assignments of the constructor
  body; the final field declarations; all in the order of the declared fields. Pieces
  are put in a row with a separator between neighbours.
\<close>

definition constructor_parameters :: "AST_Class \<Rightarrow> string list" where
  "constructor_parameters v =
     map (\<lambda>p. Parameter_Type_value (param_type p) @ '' '' @ param_name p) (parameters v)"

definition field_assignments :: "AST_Class \<Rightarrow> string list" where
  "field_assignments v =
     map (\<lambda>p. ''this.'' @ param_name p @ '' = '' @ param_name p @ '';'') (parameters v)"

definition final_declarations :: "AST_Class \<Rightarrow> string list" where
  "final_declarations v =
     map (\<lambda>p. ''final '' @ Parameter_Type_value (param_type p) @ '' '' @ param_name p @ '';'')
       (parameters v)"

fun separated :: "string \<Rightarrow> string list \<Rightarrow> string" where
  "separated sep [] = []"
| "separated sep (x # xs) = x @ concat (map (\<lambda>y. sep @ y) xs)"

text \<open>Variant lists used as examples below.\<close>

definition literal_variant :: AST_Class where
  "literal_variant =
     \<lparr>base_name = ''Expression'', name = Expression_tag LITERAL,
      parameters = [\<lparr>param_type = OBJECT, param_name = ''value''\<rparr>]\<rparr>"

definition var_variant :: AST_Class where
  "var_variant =
     \<lparr>base_name = ''Statement'', name = Statement_tag VAR,
      parameters = [\<lparr>param_type = TOKEN, param_name = ''name''\<rparr>,
                    \<lparr>param_type = EXPRESSION, param_name = ''initializer''\<rparr>]\<rparr>"

definition expr_variant :: AST_Class where
  "expr_variant =
     \<lparr>base_name = ''Statement'', name = Statement_tag EXPR,
      parameters = [\<lparr>param_type = EXPRESSION, param_name = ''expression''\<rparr>]\<rparr>"

text \<open>
  A base name outside ASCII: the German word for street, whose sharp s is the two
  characters 195 and 159 in UTF-8, and a fold that agrees with the case folding of
  Unicode on this name (the capital becomes small and the sharp s a double s).
\<close>

definition strasse :: string where
  "strasse = ''Stra'' @ [CHR 0xC3, CHR 0x9F] @ ''e''"

definition strasse_fold :: "string \<Rightarrow> string" where
  "strasse_fold s = (if s = strasse then ''strasse'' else s)"

section \<open>Auxiliary facts\<close>

lemma join_str_Nil_sep: "join_str [] xs = concat xs"
  by (induction "[] :: string" xs rule: join_str.induct) simp_all

lemma foldl_f_write: "foldl (\<lambda>f item. f_write f (g item)) f xs = f @ concat (map g xs)"
  by (induction xs arbitrary: f) (simp_all add: f_write_def)

lemma define_ast_Nil: "define_ast uf output_dir bn [] w = (Inl IndexError, w)"
  by (simp add: define_ast_def)

lemma define_ast_unwritable:
  "path_join output_dir (bn @ ''.java'') \<in> unwritable w \<Longrightarrow>
   define_ast uf output_dir bn (a # as) w = (Inl OSError, w)"
  by (simp add: define_ast_def Let_def)

lemma define_ast_Cons:
  "path_join output_dir (bn @ ''.java'') \<notin> unwritable w \<Longrightarrow>
   define_ast uf output_dir bn (a # as) w =
     (Inr (), w\<lparr>files := (files w)(path_join output_dir (bn @ ''.java'') \<mapsto>
        ''// This file was generated using tool/generate_ast.py any changes made\<newline>// here may be overwritten.\<newline>package com.cthuloops.jlox;\<newline>\<newline>import java.util.List;\<newline>\<newline>abstract class ''
        @ bn @ '' {\<newline>''
        @ generate_visitor_interface uf bn (map tag_str (enum_members (type_of_tag (name a))))
        @ concat (map AST_Class_str (a # as))
        @ base_accept_method @ ''}\<newline>'')\<rparr>)"
  unfolding define_ast_def Let_def foldl_f_write f_writelines_def
  by (simp add: f_write_def)

lemma lines_acc_append:
  "CHR 0x0A \<notin> set a \<Longrightarrow> lines_acc cur (a @ b) = lines_acc (cur @ a) b"
  by (induction a arbitrary: cur) auto

lemma casefold_char_newline: "(casefold_char c = CHR 0x0A) = (c = CHR 0x0A)"
  by (simp add: casefold_char_def)

text \<open>
  On ASCII text the fold is the lowering of A to Z whatever the parameter is, and the
  folded text has a line break only where the text has one. So for an ASCII base name
  the condition on the folded name, which the theorems on the visitor interface carry,
  follows from the condition on the name itself.
\<close>

lemma casefold_ascii: "list_all is_ascii s \<Longrightarrow> casefold uf s = map casefold_char s"
  by (simp add: casefold_def)

lemma casefold_ascii_newline:
  "list_all is_ascii s \<Longrightarrow> (CHR 0x0A \<in> set (casefold uf s)) = (CHR 0x0A \<in> set s)"
proof -
  have "(CHR 0x0A = casefold_char c) = (CHR 0x0A = c)" for c
    using casefold_char_newline [of c] by metis
  then show "list_all is_ascii s \<Longrightarrow> ?thesis"
    by (simp add: casefold_ascii image_iff)
qed

lemma tag_str_newline: "CHR 0x0A \<notin> set (tag_str t)"
proof (cases t)
  case (Expression_tag e) then show ?thesis by (cases e) simp_all
next
  case (Statement_tag s) then show ?thesis by (cases s) simp_all
qed

lemma lines_acc_decls:
  assumes "CHR 0x0A \<notin> set bn" "CHR 0x0A \<notin> set (casefold uf bn)"
    "\<forall>t \<in> set ts. CHR 0x0A \<notin> set (f t)"
  shows "lines_acc []
           (concat (map (\<lambda>t. ''    R visit'' @ f t @ bn @ ''('' @ f t @ '' '' @ casefold uf bn
                                @ '');\<newline>'') ts) @ rest)
         = map (\<lambda>t. method_decl (method_name bn (f t)) (f t) (casefold uf bn)) ts @ lines_acc [] rest"
  using assms
proof (induction ts)
  case Nil
  then show ?case by simp
next
  case (Cons t ts)
  have nl: "CHR 0x0A \<notin> set (''    R visit'' @ f t @ bn @ ''('' @ f t @ '' '' @ casefold uf bn @ '');'')"
    using Cons.prems by simp
  have "lines_acc []
          ((''    R visit'' @ f t @ bn @ ''('' @ f t @ '' '' @ casefold uf bn @ '');'')
           @ (CHR 0x0A # concat (map (\<lambda>t. ''    R visit'' @ f t @ bn @ ''('' @ f t @ '' '' @ casefold uf bn
                                @ '');\<newline>'') ts) @ rest))
        = (''    R visit'' @ f t @ bn @ ''('' @ f t @ '' '' @ casefold uf bn @ '');'')
          # lines_acc [] (concat (map (\<lambda>t. ''    R visit'' @ f t @ bn @ ''('' @ f t @ '' '' @ casefold uf bn
                                @ '');\<newline>'') ts) @ rest)"
    unfolding lines_acc_append [OF nl] by simp
  then show ?case
    using Cons by (simp add: method_decl_def method_name_def)
qed

lemma visitor_decl_not_close: "visitor_decl uf bn t \<noteq> ''  }''"
  by (simp add: visitor_decl_def method_decl_def)

lemma visitor_block_decls:
  "visitor_block (pre @ ''  interface Visitor<R> {'' # map (visitor_decl uf bn) ts @ ''  }'' # post)
   = map (visitor_decl uf bn) ts"
  if "\<forall>l \<in> set pre. l \<noteq> ''  interface Visitor<R> {''"
proof -
  have "dropWhile (\<lambda>l. l \<noteq> ''  interface Visitor<R> {'')
          (pre @ ''  interface Visitor<R> {'' # map (visitor_decl uf bn) ts @ ''  }'' # post)
        = ''  interface Visitor<R> {'' # map (visitor_decl uf bn) ts @ ''  }'' # post"
    using that by (simp add: dropWhile_append3)
  moreover have "takeWhile (\<lambda>l. l \<noteq> ''  }'') (map (visitor_decl uf bn) ts @ ''  }'' # post)
                 = map (visitor_decl uf bn) ts"
    by (induction ts) (simp_all add: visitor_decl_not_close)
  ultimately show ?thesis
    by (simp add: visitor_block_def)
qed

lemma lines_of_family_text:
  assumes "CHR 0x0A \<notin> set bn" "CHR 0x0A \<notin> set (casefold uf bn)"
  shows "lines_of
           (''// This file was generated using tool/generate_ast.py any changes made\<newline>// here may be overwritten.\<newline>package com.cthuloops.jlox;\<newline>\<newline>import java.util.List;\<newline>\<newline>abstract class ''
            @ bn @ '' {\<newline>''
            @ generate_visitor_interface uf bn (map tag_str ts) @ rest)
         = [''// This file was generated using tool/generate_ast.py any changes made'',
            ''// here may be overwritten.'', ''package com.cthuloops.jlox;'', [],
            ''import java.util.List;'', [], ''abstract class '' @ bn @ '' {'']
           @ ''  interface Visitor<R> {'' # map (visitor_decl uf bn) ts
           @ ''  }'' # [] # lines_of rest"
proof -
  have decls: "lines_acc []
           (concat (map (\<lambda>t. ''    R visit'' @ tag_str t @ bn @ ''('' @ tag_str t @ '' '' @ casefold uf bn
                                @ '');\<newline>'') ts) @ X)
         = map (visitor_decl uf bn) ts @ lines_acc [] X" for X
    using lines_acc_decls [where bn = bn and uf = uf and ts = ts and f = tag_str and rest = X] assms
    by (simp add: tag_str_newline visitor_decl_def)
  have hd: "lines_acc []
           (''// This file was generated using tool/generate_ast.py any changes made\<newline>// here may be overwritten.\<newline>package com.cthuloops.jlox;\<newline>\<newline>import java.util.List;\<newline>\<newline>abstract class ''
            @ bn @ '' {\<newline>'' @ ''  interface Visitor<R> {\<newline>'' @ Y)
         = [''// This file was generated using tool/generate_ast.py any changes made'',
            ''// here may be overwritten.'', ''package com.cthuloops.jlox;'', [],
            ''import java.util.List;'', [], ''abstract class '' @ bn @ '' {'']
           @ ''  interface Visitor<R> {'' # lines_acc [] Y" for Y
    by (simp add: lines_acc_append [OF assms(1)])
  have tl: "lines_acc [] (''  }\<newline>\<newline>'' @ X) = ''  }'' # [] # lines_acc [] X" for X
    by simp
  show ?thesis
    unfolding lines_of_def generate_visitor_interface_def Let_def join_str_Nil_sep map_map o_def
      append_assoc hd decls tl
    by simp
qed

lemma visitor_methods_family_text:
  assumes "CHR 0x0A \<notin> set bn" "CHR 0x0A \<notin> set (casefold uf bn)"
  shows "visitor_methods
           (''// This file was generated using tool/generate_ast.py any changes made\<newline>// here may be overwritten.\<newline>package com.cthuloops.jlox;\<newline>\<newline>import java.util.List;\<newline>\<newline>abstract class ''
            @ bn @ '' {\<newline>''
            @ generate_visitor_interface uf bn (map tag_str ts) @ rest)
         = map (visitor_decl uf bn) ts"
  unfolding visitor_methods_def lines_of_family_text [OF assms]
  by (rule visitor_block_decls) simp

lemma emitted_text_Cons:
  "path_join output_dir (bn @ ''.java'') \<notin> unwritable w \<Longrightarrow>
   emitted_text uf output_dir bn (a # as) w =
     Some (''// This file was generated using tool/generate_ast.py any changes made\<newline>// here may be overwritten.\<newline>package com.cthuloops.jlox;\<newline>\<newline>import java.util.List;\<newline>\<newline>abstract class ''
        @ bn @ '' {\<newline>''
        @ generate_visitor_interface uf bn (map tag_str (enum_members (type_of_tag (name a))))
        @ concat (map AST_Class_str (a # as))
        @ base_accept_method @ ''}\<newline>'')"
  unfolding emitted_text_def by (simp add: define_ast_Cons)

lemma visitor_methods_emitted:
  assumes "CHR 0x0A \<notin> set bn" "CHR 0x0A \<notin> set (casefold uf bn)"
    "path_join output_dir (bn @ ''.java'') \<notin> unwritable w"
  shows "map_option visitor_methods (emitted_text uf output_dir bn (a # as) w)
         = Some (map (visitor_decl uf bn) (enum_members (type_of_tag (name a))))"
  unfolding emitted_text_Cons [OF assms(3)] option.map
  by (simp only: visitor_methods_family_text [OF assms(1,2)])

lemma distinct_visitor_decls: "distinct (map (visitor_decl uf bn) (enum_members T))"
  by (cases T) (simp_all add: visitor_decl_def method_decl_def method_name_def)

lemma tag_str_inj: "tag_str s = tag_str t \<Longrightarrow> s = t"
proof (cases s)
  case (Expression_tag e)
  show "tag_str s = tag_str t \<Longrightarrow> s = t"
  proof (cases t)
    case (Expression_tag e')
    then show "tag_str s = tag_str t \<Longrightarrow> s = t" using \<open>s = Expression_tag e\<close> by (cases e; cases e') simp_all
  next
    case (Statement_tag s')
    then show "tag_str s = tag_str t \<Longrightarrow> s = t" using \<open>s = Expression_tag e\<close> by (cases e; cases s') simp_all
  qed
next
  case (Statement_tag s0)
  show "tag_str s = tag_str t \<Longrightarrow> s = t"
  proof (cases t)
    case (Expression_tag e')
    then show "tag_str s = tag_str t \<Longrightarrow> s = t" using \<open>s = Statement_tag s0\<close> by (cases s0; cases e') simp_all
  next
    case (Statement_tag s')
    then show "tag_str s = tag_str t \<Longrightarrow> s = t" using \<open>s = Statement_tag s0\<close> by (cases s0; cases s') simp_all
  qed
qed

lemma visitor_decl_inj: "visitor_decl uf bn s = visitor_decl uf bn t \<Longrightarrow> s = t"
proof -
  assume eq: "visitor_decl uf bn s = visitor_decl uf bn t"
  then have "length (tag_str s) = length (tag_str t)"
    using arg_cong [OF eq, of length] by (simp add: visitor_decl_def method_decl_def method_name_def)
  with eq have "tag_str s = tag_str t"
    by (simp add: visitor_decl_def method_decl_def method_name_def)
  then show "s = t" by (rule tag_str_inj)
qed

lemma mem_enum_members: "(t \<in> set (enum_members T)) = (type_of_tag t = T)"
proof (cases t)
  case (Expression_tag e)
  then show ?thesis by (cases T; cases e) simp_all
next
  case (Statement_tag s)
  then show ?thesis by (cases T; cases s) simp_all
qed

lemma fold_Statement: "casefold uf ''Statement'' = ''statement''"
  by (simp add: casefold_def is_ascii_def casefold_char_def)

lemma fold_Expression: "casefold uf ''Expression'' = ''expression''"
  by (simp add: casefold_def is_ascii_def casefold_char_def)

lemma fold_Statement_newline: "CHR 0x0A \<notin> set (casefold uf ''Statement'')"
  by (simp add: fold_Statement)

lemma fold_Expression_newline: "CHR 0x0A \<notin> set (casefold uf ''Expression'')"
  by (simp add: fold_Expression)

lemma out_path_writable:
  "path_join ''out'' (bn @ ''.java'') \<notin> unwritable empty_world"
  by (simp add: empty_world_def)

section \<open>The catalog builders\<close>

text \<open>
  C7. The Expression builder returns six variants tagged Assign, Binary, Grouping,
  Literal, Unary, Variable in that order and the Statement builder three variants tagged
  Expr, Print, Var in that order; every variant carries the family name the builder was
  given, which is "Expression" and "Statement" when the argument is left out. The
  builders read nothing but their argument, so a repeated call returns the same list.
\<close>

theorem builders_return_fixed_lists:
  "map name (build_expressions bn)
     = map Expression_tag [ASSIGN, BINARY, GROUPING, LITERAL, UNARY, VARIABLE]
   \<and> map tag_str (map name (build_expressions bn))
     = [''Assign'', ''Binary'', ''Grouping'', ''Literal'', ''Unary'', ''Variable'']
   \<and> map base_name (build_expressions bn) = replicate 6 bn
   \<and> map base_name build_expressions_default = replicate 6 ''Expression''
   \<and> length build_expressions_default = 6
   \<and> map name (build_statements bn) = map Statement_tag [EXPR, PRINT, VAR]
   \<and> map tag_str (map name (build_statements bn)) = [''Expr'', ''Print'', ''Var'']
   \<and> map base_name (build_statements bn) = replicate 3 bn
   \<and> map base_name build_statements_default = replicate 3 ''Statement''
   \<and> length build_statements_default = 3
   \<and> map parameters build_expressions_default
     = [[\<lparr>param_type = TOKEN, param_name = ''name''\<rparr>,
         \<lparr>param_type = EXPRESSION, param_name = ''value''\<rparr>],
        [\<lparr>param_type = EXPRESSION, param_name = ''left''\<rparr>,
         \<lparr>param_type = TOKEN, param_name = ''operator''\<rparr>,
         \<lparr>param_type = EXPRESSION, param_name = ''right''\<rparr>],
        [\<lparr>param_type = EXPRESSION, param_name = ''expression''\<rparr>],
        [\<lparr>param_type = OBJECT, param_name = ''value''\<rparr>],
        [\<lparr>param_type = TOKEN, param_name = ''operator''\<rparr>,
         \<lparr>param_type = EXPRESSION, param_name = ''right''\<rparr>],
        [\<lparr>param_type = TOKEN, param_name = ''name''\<rparr>]]
   \<and> map parameters build_statements_default
     = [[\<lparr>param_type = EXPRESSION, param_name = ''expression''\<rparr>],
        [\<lparr>param_type = EXPRESSION, param_name = ''expression''\<rparr>],
        [\<lparr>param_type = TOKEN, param_name = ''name''\<rparr>,
         \<lparr>param_type = EXPRESSION, param_name = ''initializer''\<rparr>]]"
  by (simp add: build_expressions_def build_statements_def build_expressions_default_def
        build_statements_default_def numeral_eq_Suc)

section \<open>The visitor interface\<close>

text \<open>
  C10. For a variant list with first element \<open>first\<close>, a writable output path and a base
  name that has no line break, neither as it is nor case-folded, the method declarations
  of the emitted visitor interface are exactly one per member of the enumeration of the
  tag of \<open>first\<close>, in declaration order, the parameter of each named by the case-folded
  base name; the declarations are pairwise different, and the rest of the list has no
  influence. The case folding is that of Python: for an ASCII base name it lowers the
  letters A to Z, for any other base name it is the case folding of Unicode, whatever
  that table is.
\<close>

theorem visitor_interface_from_first_enum:
  assumes "CHR 0x0A \<notin> set bn"
    and "CHR 0x0A \<notin> set (casefold uf bn)"
    and "path_join output_dir (bn @ ''.java'') \<notin> unwritable w"
  shows "map_option visitor_methods (emitted_text uf output_dir bn (first # rest) w)
           = Some (map (\<lambda>t. method_decl (method_name bn (tag_str t)) (tag_str t) (casefold uf bn))
                     (enum_members (type_of_tag (name first))))
         \<and> distinct (map (\<lambda>t. method_decl (method_name bn (tag_str t)) (tag_str t) (casefold uf bn))
                     (enum_members (type_of_tag (name first))))
         \<and> (list_all is_ascii bn \<longrightarrow> casefold uf bn = map casefold_char bn)
         \<and> (\<not> list_all is_ascii bn \<longrightarrow> casefold uf bn = uf bn)"
  using visitor_methods_emitted [OF assms, where a = first and as = rest]
    distinct_visitor_decls [where uf = uf and bn = bn]
  by (simp add: visitor_decl_def [abs_def] casefold_def)

theorem visitor_interface_from_first_enum_witness:
  "CHR 0x0A \<notin> set ''Statement''
   \<and> CHR 0x0A \<notin> set (casefold id ''Statement'')
   \<and> path_join ''out'' (''Statement'' @ ''.java'') \<notin> unwritable empty_world
   \<and> list_all is_ascii ''Statement''
   \<and> casefold id ''Statement'' = ''statement''
   \<and> map_option visitor_methods
        (emitted_text id ''out'' ''Statement'' (var_variant # [var_variant]) empty_world)
       = Some [''    R visitExprStatement(Expr statement);'',
               ''    R visitPrintStatement(Print statement);'',
               ''    R visitVarStatement(Var statement);'']
   \<and> CHR 0x0A \<notin> set strasse
   \<and> CHR 0x0A \<notin> set (casefold strasse_fold strasse)
   \<and> path_join ''out'' (strasse @ ''.java'') \<notin> unwritable empty_world
   \<and> \<not> list_all is_ascii strasse
   \<and> casefold strasse_fold strasse = ''strasse''
   \<and> map_option visitor_methods
        (emitted_text strasse_fold ''out'' strasse (var_variant # []) empty_world)
       = Some [''    R visitExpr'' @ strasse @ ''(Expr strasse);'',
               ''    R visitPrint'' @ strasse @ ''(Print strasse);'',
               ''    R visitVar'' @ strasse @ ''(Var strasse);'']"
proof -
  have nl: "CHR 0x0A \<notin> set ''Statement''" by simp
  have asc: "list_all is_ascii ''Statement''"
    by (simp add: is_ascii_def)
  have fold: "casefold id ''Statement'' = ''statement''"
    by (simp add: casefold_ascii [OF asc] casefold_char_def)
  have nlf: "CHR 0x0A \<notin> set (casefold id ''Statement'')"
    unfolding fold by simp
  have wr: "path_join ''out'' (''Statement'' @ ''.java'') \<notin> unwritable empty_world"
    by (rule out_path_writable)
  have nl': "CHR 0x0A \<notin> set strasse"
    by (simp add: strasse_def)
  have asc': "\<not> list_all is_ascii strasse"
    by (simp add: strasse_def is_ascii_def)
  have fold': "casefold strasse_fold strasse = ''strasse''"
    using asc' by (simp add: casefold_def strasse_fold_def)
  have nlf': "CHR 0x0A \<notin> set (casefold strasse_fold strasse)"
    unfolding fold' by simp
  have wr': "path_join ''out'' (strasse @ ''.java'') \<notin> unwritable empty_world"
    by (rule out_path_writable)
  have one: "map_option visitor_methods
        (emitted_text id ''out'' ''Statement'' (var_variant # [var_variant]) empty_world)
       = Some [''    R visitExprStatement(Expr statement);'',
               ''    R visitPrintStatement(Print statement);'',
               ''    R visitVarStatement(Var statement);'']"
    using visitor_interface_from_first_enum [OF nl nlf wr, where first = var_variant
          and rest = "[var_variant]", THEN conjunct1]
    unfolding fold
    by (simp add: var_variant_def method_decl_def method_name_def)
  have two: "map_option visitor_methods
        (emitted_text strasse_fold ''out'' strasse (var_variant # []) empty_world)
       = Some [''    R visitExpr'' @ strasse @ ''(Expr strasse);'',
               ''    R visitPrint'' @ strasse @ ''(Print strasse);'',
               ''    R visitVar'' @ strasse @ ''(Var strasse);'']"
    using visitor_interface_from_first_enum [OF nl' nlf' wr', where first = var_variant
          and rest = "[]", THEN conjunct1]
    unfolding fold'
    by (simp add: var_variant_def method_decl_def method_name_def)
  from nl nlf wr asc fold one nl' nlf' wr' asc' fold' two show ?thesis
    by blast
qed

text \<open>
  C1, as stated, fails: for the Statement family with the variants Var and Expr the
  interface declares three methods, in the order Expr, Print, Var, while the list has two
  distinct tags, first Var and then Expr.
\<close>

theorem visitor_methods_not_distinct_tags_counterexample:
  "map_option visitor_methods
     (emitted_text id ''out'' ''Statement'' [var_variant, expr_variant] empty_world)
     = Some [''    R visitExprStatement(Expr statement);'',
             ''    R visitPrintStatement(Print statement);'',
             ''    R visitVarStatement(Var statement);'']
   \<and> map (visitor_decl id ''Statement'') (distinct_tags [var_variant, expr_variant])
     = [''    R visitVarStatement(Var statement);'', ''    R visitExprStatement(Expr statement);'']
   \<and> map_option visitor_method_count
         (emitted_text id ''out'' ''Statement'' [var_variant, expr_variant] empty_world) = Some 3
   \<and> length (distinct_tags [var_variant, expr_variant]) = 2"
proof -
  have nl: "CHR 0x0A \<notin> set ''Statement''" by simp
  have m: "map_option visitor_methods
     (emitted_text id ''out'' ''Statement'' [var_variant, expr_variant] empty_world)
     = Some [''    R visitExprStatement(Expr statement);'',
             ''    R visitPrintStatement(Print statement);'',
             ''    R visitVarStatement(Var statement);'']"
    unfolding visitor_methods_emitted [OF nl fold_Statement_newline out_path_writable]
    by (simp add: var_variant_def visitor_decl_def method_decl_def method_name_def
          fold_Statement)
  then have c: "map_option visitor_method_count
         (emitted_text id ''out'' ''Statement'' [var_variant, expr_variant] empty_world) = Some 3"
    by (cases "emitted_text id ''out'' ''Statement'' [var_variant, expr_variant] empty_world")
       (auto simp: visitor_method_count_def)
  have d: "distinct_tags [var_variant, expr_variant] = [Statement_tag VAR, Statement_tag EXPR]"
    by (simp add: distinct_tags_def var_variant_def expr_variant_def)
  have "map (visitor_decl id ''Statement'') (distinct_tags [var_variant, expr_variant])
     = [''    R visitVarStatement(Var statement);'', ''    R visitExprStatement(Expr statement);'']"
    unfolding d by (simp add: visitor_decl_def method_decl_def method_name_def
          fold_Statement)
  with m c d show ?thesis by simp
qed

text \<open>
  C1, amended. For a non-empty variant list, a base name without a line break (neither
  as it is nor case-folded) and a writable output path, the number of method declarations of the visitor interface is
  the number of members of the enumeration of the first variant's tag, and the methods
  stand in the declaration order of that enumeration. They are the methods of the
  distinct tags of the list in first-occurrence order exactly when those tags are the
  members of the enumeration in declaration order.
\<close>

theorem visitor_method_count_is_enum_size:
  assumes "CHR 0x0A \<notin> set bn"
    and "CHR 0x0A \<notin> set (casefold uf bn)"
    and "path_join output_dir (bn @ ''.java'') \<notin> unwritable w"
    and "ast \<noteq> []"
  shows "map_option visitor_method_count (emitted_text uf output_dir bn ast w)
           = Some (length (enum_members (type_of_tag (name (hd ast)))))
         \<and> map_option visitor_methods (emitted_text uf output_dir bn ast w)
           = Some (map (visitor_decl uf bn) (enum_members (type_of_tag (name (hd ast)))))
         \<and> ((map_option visitor_methods (emitted_text uf output_dir bn ast w)
              = Some (map (visitor_decl uf bn) (distinct_tags ast)))
            = (distinct_tags ast = enum_members (type_of_tag (name (hd ast)))))"
proof -
  obtain a as where ast: "ast = a # as"
    using assms(4) by (cases ast) auto
  have m: "map_option visitor_methods (emitted_text uf output_dir bn ast w)
           = Some (map (visitor_decl uf bn) (enum_members (type_of_tag (name (hd ast)))))"
    using visitor_methods_emitted [OF assms(1,2,3), where a = a and as = as] ast by simp
  from m have c: "map_option visitor_method_count (emitted_text uf output_dir bn ast w)
           = Some (length (enum_members (type_of_tag (name (hd ast)))))"
    by (cases "emitted_text uf output_dir bn ast w") (auto simp: visitor_method_count_def)
  have "inj (visitor_decl uf bn)"
    by (rule injI) (rule visitor_decl_inj)
  then have "(map_option visitor_methods (emitted_text uf output_dir bn ast w)
              = Some (map (visitor_decl uf bn) (distinct_tags ast)))
            = (distinct_tags ast = enum_members (type_of_tag (name (hd ast))))"
    unfolding m by (auto dest: inj_mapD simp: inj_map_eq_map)
  with m c show ?thesis by blast
qed

theorem visitor_method_count_is_enum_size_witness:
  "CHR 0x0A \<notin> set ''Statement''
   \<and> CHR 0x0A \<notin> set (casefold id ''Statement'')
   \<and> path_join ''out'' (''Statement'' @ ''.java'') \<notin> unwritable empty_world
   \<and> build_statements_default \<noteq> []
   \<and> map_option visitor_method_count
        (emitted_text id ''out'' ''Statement'' build_statements_default empty_world) = Some 3
   \<and> map_option visitor_methods
        (emitted_text id ''out'' ''Statement'' build_statements_default empty_world)
       = Some (map (visitor_decl id ''Statement'') (distinct_tags build_statements_default))"
proof -
  have nl: "CHR 0x0A \<notin> set ''Statement''" by simp
  have wr: "path_join ''out'' (''Statement'' @ ''.java'') \<notin> unwritable empty_world"
    by (rule out_path_writable)
  have ne: "build_statements_default \<noteq> []"
    by (simp add: build_statements_default_def build_statements_def)
  have hd: "enum_members (type_of_tag (name (hd build_statements_default)))
            = [Statement_tag EXPR, Statement_tag PRINT, Statement_tag VAR]"
    by (simp add: build_statements_default_def build_statements_def)
  have dt: "distinct_tags build_statements_default
            = [Statement_tag EXPR, Statement_tag PRINT, Statement_tag VAR]"
    by (simp add: distinct_tags_def build_statements_default_def build_statements_def)
  have nlf: "CHR 0x0A \<notin> set (casefold id ''Statement'')"
    by (rule fold_Statement_newline)
  show ?thesis
    using nl nlf wr ne visitor_method_count_is_enum_size [OF nl nlf wr ne] hd dt
    by (simp add: numeral_3_eq_3)
qed

lemma declaration_count_emitted:
  assumes "CHR 0x0A \<notin> set bn" "CHR 0x0A \<notin> set (casefold uf bn)"
    "path_join output_dir (bn @ ''.java'') \<notin> unwritable w"
  shows "map_option (declaration_count m) (emitted_text uf output_dir bn (a # as) w)
         = Some (length (filter (declares m)
                   (map (visitor_decl uf bn) (enum_members (type_of_tag (name a))))))"
  using visitor_methods_emitted [OF assms, where a = a and as = as]
  by (cases "emitted_text uf output_dir bn (a # as) w") (auto simp: declaration_count_def)

lemma declared_once_in_enum:
  "length (filter (declares (method_name bn (tag_str t)))
             (map (visitor_decl uf bn) (enum_members (type_of_tag t)))) = 1"
proof (cases t)
  case (Expression_tag e)
  then show ?thesis
    by (cases e) (simp_all add: declares_def visitor_decl_def method_decl_def method_name_def)
next
  case (Statement_tag s)
  then show ?thesis
    by (cases s) (simp_all add: declares_def visitor_decl_def method_decl_def method_name_def)
qed

section \<open>Repeated tags\<close>

text \<open>
  C3, as stated, fails: for the Expression family with the variant Literal listed twice,
  the method name \<open>visitLiteralExpression\<close> is declared once in the visitor interface,
  not twice.
\<close>

theorem repeated_tag_declared_once_counterexample:
  "map name [literal_variant, literal_variant] = [Expression_tag LITERAL, Expression_tag LITERAL]
   \<and> method_name ''Expression'' (tag_str (Expression_tag LITERAL)) = ''visitLiteralExpression''
   \<and> map_option (declaration_count ''visitLiteralExpression'')
        (emitted_text id ''out'' ''Expression'' [literal_variant, literal_variant] empty_world)
      = Some 1"
proof -
  have nl: "CHR 0x0A \<notin> set ''Expression''" by simp
  have "map_option (declaration_count (method_name ''Expression'' (tag_str (Expression_tag LITERAL))))
          (emitted_text id ''out'' ''Expression'' [literal_variant, literal_variant] empty_world)
        = Some 1"
    unfolding declaration_count_emitted [OF nl fold_Expression_newline out_path_writable]
    using declared_once_in_enum [where bn = "''Expression''" and t = "Expression_tag LITERAL"
        and uf = id]
    by (simp add: literal_variant_def)
  then show ?thesis
    by (simp add: literal_variant_def method_name_def)
qed

text \<open>
  C3, amended. For a non-empty variant list, a base name without a line break (neither
  as it is nor case-folded) and a writable output path, every tag \<open>t\<close> of the enumeration of the first variant's tag, also
  one that the list repeats, has its method name \<open>visit\<close> + \<open>t\<close> + base name declared
  exactly once in the visitor interface.
\<close>

theorem repeated_tag_declared_once:
  assumes "CHR 0x0A \<notin> set bn"
    and "CHR 0x0A \<notin> set (casefold uf bn)"
    and "path_join output_dir (bn @ ''.java'') \<notin> unwritable w"
    and "type_of_tag t = type_of_tag (name first)"
  shows "map_option (declaration_count (method_name bn (tag_str t)))
           (emitted_text uf output_dir bn (first # rest) w) = Some 1"
  unfolding declaration_count_emitted [OF assms(1,2,3)] assms(4) [symmetric]
  by (simp only: declared_once_in_enum)

theorem repeated_tag_declared_once_witness:
  "CHR 0x0A \<notin> set ''Statement''
   \<and> CHR 0x0A \<notin> set (casefold id ''Statement'')
   \<and> path_join ''out'' (''Statement'' @ ''.java'') \<notin> unwritable empty_world
   \<and> type_of_tag (Statement_tag VAR) = type_of_tag (name var_variant)
   \<and> map_option (declaration_count ''visitVarStatement'')
        (emitted_text id ''out'' ''Statement'' (var_variant # [expr_variant, var_variant]) empty_world)
      = Some 1"
proof -
  have nl: "CHR 0x0A \<notin> set ''Statement''" by simp
  have wr: "path_join ''out'' (''Statement'' @ ''.java'') \<notin> unwritable empty_world"
    by (rule out_path_writable)
  have ty: "type_of_tag (Statement_tag VAR) = type_of_tag (name var_variant)"
    by (simp add: var_variant_def)
  have nlf: "CHR 0x0A \<notin> set (casefold id ''Statement'')"
    by (rule fold_Statement_newline)
  show ?thesis
    using nl nlf wr ty
      repeated_tag_declared_once [OF nl nlf wr ty, where rest = "[expr_variant, var_variant]"]
    by (simp add: method_name_def)
qed

section \<open>Scenario A\<close>

text \<open>
  C2, as stated, fails: for the family Expression with the single variant Literal the
  visitor interface has six methods, not one.
\<close>

theorem scenario_A_six_methods_counterexample:
  "map_option visitor_method_count
     (emitted_text id ''out'' ''Expression'' [literal_variant] empty_world) = Some 6"
proof -
  have nl: "CHR 0x0A \<notin> set ''Expression''" by simp
  show ?thesis
    using visitor_methods_emitted [OF nl fold_Expression_newline [where uf = id]
        out_path_writable, where a = literal_variant and as = "[]"]
    by (cases "emitted_text id ''out'' ''Expression'' [literal_variant] empty_world")
       (auto simp: visitor_method_count_def literal_variant_def)
qed

text \<open>
  C2, amended. For the family Expression with the single variant Literal with the field
  \<open>Object value\<close>, the emitted text has a visitor interface with six methods, one per
  member of the Expression enumeration, among them \<open>visitLiteralExpression(Literal
  expression)\<close> exactly once; a class \<open>Literal\<close> extending \<open>Expression\<close> with the
  constructor \<open>Literal(Object value)\<close> whose body is \<open>this.value = value;\<close>; an accept
  method that returns \<open>visitor.visitLiteralExpression(this)\<close>; and the final field
  declaration \<open>final Object value;\<close>.
\<close>

theorem scenario_A_emitted_text:
  "map_option lines_of (emitted_text uf ''out'' ''Expression'' [literal_variant] empty_world)
     = Some
        [''// This file was generated using tool/generate_ast.py any changes made'',
         ''// here may be overwritten.'',
         ''package com.cthuloops.jlox;'',
         [],
         ''import java.util.List;'',
         [],
         ''abstract class Expression {'',
         ''  interface Visitor<R> {'',
         ''    R visitAssignExpression(Assign expression);'',
         ''    R visitBinaryExpression(Binary expression);'',
         ''    R visitGroupingExpression(Grouping expression);'',
         ''    R visitLiteralExpression(Literal expression);'',
         ''    R visitUnaryExpression(Unary expression);'',
         ''    R visitVariableExpression(Variable expression);'',
         ''  }'',
         [],
         ''  static class Literal extends Expression {'',
         ''    Literal(Object value) {'',
         ''        this.value = value;'',
         ''    }'',
         [],
         ''    @Override'',
         ''    <R> R accept(Visitor<R> visitor) {'',
         ''        return visitor.visitLiteralExpression(this);'',
         ''    }'',
         [],
         ''    final Object value;'',
         ''  }'',
         [],
         ''  // Base accept method'',
         ''  abstract <R> R accept(Visitor<R> visitor);'',
         ''}'',
         []]
   \<and> map_option visitor_methods
        (emitted_text uf ''out'' ''Expression'' [literal_variant] empty_world)
     = Some
        [''    R visitAssignExpression(Assign expression);'',
         ''    R visitBinaryExpression(Binary expression);'',
         ''    R visitGroupingExpression(Grouping expression);'',
         ''    R visitLiteralExpression(Literal expression);'',
         ''    R visitUnaryExpression(Unary expression);'',
         ''    R visitVariableExpression(Variable expression);'']
   \<and> map_option (declaration_count ''visitLiteralExpression'')
        (emitted_text uf ''out'' ''Expression'' [literal_variant] empty_world) = Some 1
   \<and> lines_of (AST_Class_str literal_variant)
     = [''  static class Literal extends Expression {'',
        ''    Literal(Object value) {'',
        ''        this.value = value;'',
        ''    }'',
        [],
        ''    @Override'',
        ''    <R> R accept(Visitor<R> visitor) {'',
        ''        return visitor.visitLiteralExpression(this);'',
        ''    }'',
        [],
        ''    final Object value;'',
        ''  }'',
        [],
        []]"
  by code_simp

lemma AST_Class_str_unfold:
  "AST_Class_str v =
     generate_class_decl v @ generate_constructor_decl v @ generate_fields v
     @ generate_constructor_end v @ generate_visitor_method v @ generate_final_fields v
     @ generate_class_end v"
  by (simp add: AST_Class_str_def join_str_Nil_sep)

lemma join_str_separated: "join_str sep xs = separated sep xs"
  by (induction sep xs rule: join_str.induct) simp_all

lemma class_block_in_blocks:
  assumes "v \<in> set ast"
  shows "sublist (AST_Class_str v) (concat (map AST_Class_str ast))"
proof -
  obtain xs ys where "ast = xs @ v # ys"
    using assms by (auto dest: split_list)
  then have "concat (map AST_Class_str ast)
             = concat (map AST_Class_str xs) @ AST_Class_str v @ concat (map AST_Class_str ys)"
    by simp
  then show ?thesis
    unfolding sublist_def by blast
qed

lemma emitted_contains_class_block:
  assumes "v \<in> set ast"
    and "path_join output_dir (bn @ ''.java'') \<notin> unwritable w"
  shows "\<exists>text. emitted_text uf output_dir bn ast w = Some text \<and> sublist (AST_Class_str v) text"
proof -
  obtain a as where ast: "ast = a # as"
    using assms(1) by (cases ast) auto
  obtain ps ss where blocks: "concat (map AST_Class_str (a # as)) = ps @ AST_Class_str v @ ss"
    using class_block_in_blocks [OF assms(1)] unfolding sublist_def ast by blast
  have reassoc: "h @ b @ c @ i @ (ps @ x @ ss) @ t = (h @ b @ c @ i @ ps) @ x @ (ss @ t)"
    for h b c i x t :: string
    by simp
  show ?thesis
    unfolding ast emitted_text_Cons [OF assms(2)] blocks reassoc
    by (rule exI, rule conjI, rule refl, rule sublist_appendI)
qed

lemma accept_in_class_block: "sublist (generate_visitor_method v) (AST_Class_str v)"
proof -
  have "AST_Class_str v
        = (generate_class_decl v @ generate_constructor_decl v @ generate_fields v
           @ generate_constructor_end v)
          @ generate_visitor_method v @ (generate_final_fields v @ generate_class_end v)"
    by (simp add: AST_Class_str_unfold)
  then show ?thesis
    by (simp only: sublist_appendI)
qed

section \<open>The accept method and the interface\<close>

text \<open>
  C4. Let the variant list satisfy the input constraints of the emitter as far as the
  variant \<open>v\<close> is concerned: \<open>v\<close> carries the family name that is passed as base name,
  and its tag belongs to the enumeration of the first variant's tag (the enumeration of
  the family); let the base name have no line break, neither as it is nor case-folded.
  Then the accept method of \<open>v\<close> calls the method named \<open>visit\<close> + tag of
  \<open>v\<close> + base name, this accept method stands in the class block of \<open>v\<close>, which stands
  in the emitted text, and the visitor interface of that text declares a method of
  exactly that name with one parameter of the type named by the tag of \<open>v\<close>.
\<close>

theorem accept_calls_declared_method:
  assumes "v \<in> set ast"
    and "base_name v = bn"
    and "type_of_tag (name v) = type_of_tag (name (hd ast))"
    and "CHR 0x0A \<notin> set bn"
    and "CHR 0x0A \<notin> set (casefold uf bn)"
    and "path_join output_dir (bn @ ''.java'') \<notin> unwritable w"
  shows "\<exists>text. emitted_text uf output_dir bn ast w = Some text
           \<and> generate_visitor_method v
             = ''    @Override\<newline>    <R> R accept(Visitor<R> visitor) {\<newline>        return visitor.''
               @ method_name bn (tag_str (name v)) @ ''(this);\<newline>    }\<newline>\<newline>''
           \<and> sublist (generate_visitor_method v) (AST_Class_str v)
           \<and> sublist (AST_Class_str v) text
           \<and> method_decl (method_name bn (tag_str (name v))) (tag_str (name v)) (casefold uf bn)
               \<in> set (visitor_methods text)"
proof -
  obtain body where body: "emitted_text uf output_dir bn ast w = Some body"
    and block: "sublist (AST_Class_str v) body"
    using emitted_contains_class_block [OF assms(1,6)] by blast
  obtain a as where ast: "ast = a # as"
    using assms(1) by (cases ast) auto
  have "visitor_methods body = map (visitor_decl uf bn) (enum_members (type_of_tag (name a)))"
    using visitor_methods_emitted [OF assms(4,5,6), where a = a and as = as] body ast by simp
  moreover have "name v \<in> set (enum_members (type_of_tag (name a)))"
    using assms(3) ast by (simp add: mem_enum_members)
  ultimately have decl: "visitor_decl uf bn (name v) \<in> set (visitor_methods body)"
    by simp
  have acc: "generate_visitor_method v
             = ''    @Override\<newline>    <R> R accept(Visitor<R> visitor) {\<newline>        return visitor.''
               @ method_name bn (tag_str (name v)) @ ''(this);\<newline>    }\<newline>\<newline>''"
    using assms(2) by (simp add: generate_visitor_method_def method_name_def)
  from body acc accept_in_class_block [of v] block decl show ?thesis
    unfolding visitor_decl_def by blast
qed

theorem accept_calls_declared_method_witness:
  "var_variant \<in> set build_statements_default
   \<and> base_name var_variant = ''Statement''
   \<and> type_of_tag (name var_variant) = type_of_tag (name (hd build_statements_default))
   \<and> CHR 0x0A \<notin> set ''Statement''
   \<and> CHR 0x0A \<notin> set (casefold id ''Statement'')
   \<and> path_join ''out'' (''Statement'' @ ''.java'') \<notin> unwritable empty_world
   \<and> (\<exists>text. emitted_text id ''out'' ''Statement'' build_statements_default empty_world = Some text
           \<and> generate_visitor_method var_variant
             = ''    @Override\<newline>    <R> R accept(Visitor<R> visitor) {\<newline>        return visitor.visitVarStatement(this);\<newline>    }\<newline>\<newline>''
           \<and> sublist (AST_Class_str var_variant) text
           \<and> ''    R visitVarStatement(Var statement);'' \<in> set (visitor_methods text))"
proof -
  have h1: "var_variant \<in> set build_statements_default"
    by (simp add: build_statements_default_def build_statements_def var_variant_def)
  have h2: "base_name var_variant = ''Statement''"
    by (simp add: var_variant_def)
  have h3: "type_of_tag (name var_variant) = type_of_tag (name (hd build_statements_default))"
    by (simp add: build_statements_default_def build_statements_def var_variant_def)
  have h4: "CHR 0x0A \<notin> set ''Statement''" by simp
  have h5: "path_join ''out'' (''Statement'' @ ''.java'') \<notin> unwritable empty_world"
    by (rule out_path_writable)
  have m: "method_name ''Statement'' (tag_str (name var_variant)) = ''visitVarStatement''"
    by (simp add: method_name_def var_variant_def)
  have d: "method_decl ''visitVarStatement'' (tag_str (name var_variant)) (casefold id ''Statement'')
           = ''    R visitVarStatement(Var statement);''"
    by (simp add: method_decl_def var_variant_def fold_Statement)
  have a: "''    @Override\<newline>    <R> R accept(Visitor<R> visitor) {\<newline>        return visitor.''
               @ ''visitVarStatement'' @ ''(this);\<newline>    }\<newline>\<newline>''
           = ''    @Override\<newline>    <R> R accept(Visitor<R> visitor) {\<newline>        return visitor.visitVarStatement(this);\<newline>    }\<newline>\<newline>''"
    by simp
  have h6: "CHR 0x0A \<notin> set (casefold id ''Statement'')"
    by (rule fold_Statement_newline)
  show ?thesis
    using h1 h2 h3 h4 h6 h5 accept_calls_declared_method [OF h1 h2 h3 h4 h6 h5]
    unfolding m d a by blast
qed

section \<open>The fields of a class block\<close>

text \<open>
  C5. For every variant \<open>v\<close> of the variant list (and a writable output path) the class
  block of \<open>v\<close> stands in the emitted text, and it consists of: the class declaration;
  the constructor line, whose parameter list is the fields of \<open>v\<close>, each rendered as
  kind and name, in declared order and separated by a comma and a blank; one assignment
  \<open>this.name = name;\<close> per field in the same order; the end of the constructor; the
  accept method; one declaration \<open>final kind name;\<close> per field in the same order; and
  the end of the class.
\<close>

theorem class_block_renders_fields_in_order:
  assumes "v \<in> set ast"
    and "path_join output_dir (bn @ ''.java'') \<notin> unwritable w"
  shows "\<exists>text. emitted_text uf output_dir bn ast w = Some text
           \<and> sublist (AST_Class_str v) text
           \<and> AST_Class_str v
             = generate_class_decl v
               @ ''    '' @ tag_str (name v) @ ''(''
               @ separated '', '' (constructor_parameters v) @ '') {\<newline>''
               @ concat (map (\<lambda>l. ''        '' @ l @ ''\<newline>'') (field_assignments v))
               @ ''    }\<newline>\<newline>''
               @ generate_visitor_method v
               @ concat (map (\<lambda>l. ''    '' @ l @ ''\<newline>'') (final_declarations v))
               @ ''  }\<newline>\<newline>''"
proof -
  have ctor: "generate_constructor_decl v
              = ''    '' @ tag_str (name v) @ ''(''
                @ separated '', '' (constructor_parameters v) @ '') {\<newline>''"
    by (simp add: generate_constructor_decl_def join_str_separated constructor_parameters_def
          Parameter_str_def [abs_def])
  have body: "generate_fields v
              = concat (map (\<lambda>l. ''        '' @ l @ ''\<newline>'') (field_assignments v))"
    by (simp add: generate_fields_def join_str_Nil_sep field_assignments_def o_def)
  have finals: "generate_final_fields v
                = concat (map (\<lambda>l. ''    '' @ l @ ''\<newline>'') (final_declarations v))"
    by (simp add: generate_final_fields_def join_str_Nil_sep final_declarations_def o_def
          Parameter_str_def)
  have "AST_Class_str v
             = generate_class_decl v
               @ ''    '' @ tag_str (name v) @ ''(''
               @ separated '', '' (constructor_parameters v) @ '') {\<newline>''
               @ concat (map (\<lambda>l. ''        '' @ l @ ''\<newline>'') (field_assignments v))
               @ ''    }\<newline>\<newline>''
               @ generate_visitor_method v
               @ concat (map (\<lambda>l. ''    '' @ l @ ''\<newline>'') (final_declarations v))
               @ ''  }\<newline>\<newline>''"
    unfolding AST_Class_str_unfold ctor body finals
    by (simp add: generate_constructor_end_def generate_class_end_def)
  with emitted_contains_class_block [OF assms] show ?thesis
    by blast
qed

theorem class_block_renders_fields_in_order_witness:
  "var_variant \<in> set build_statements_default
   \<and> path_join ''out'' (''Statement'' @ ''.java'') \<notin> unwritable empty_world
   \<and> (\<exists>text. emitted_text id ''out'' ''Statement'' build_statements_default empty_world = Some text
         \<and> sublist (AST_Class_str var_variant) text)
   \<and> constructor_parameters var_variant = [''Token name'', ''Expression initializer'']
   \<and> separated '', '' (constructor_parameters var_variant) = ''Token name, Expression initializer''
   \<and> field_assignments var_variant = [''this.name = name;'', ''this.initializer = initializer;'']
   \<and> final_declarations var_variant = [''final Token name;'', ''final Expression initializer;'']"
proof -
  have h1: "var_variant \<in> set build_statements_default"
    by (simp add: build_statements_default_def build_statements_def var_variant_def)
  have h2: "path_join ''out'' (''Statement'' @ ''.java'') \<notin> unwritable empty_world"
    by (rule out_path_writable)
  have c: "constructor_parameters var_variant = [''Token name'', ''Expression initializer'']"
    by (simp add: constructor_parameters_def var_variant_def)
  have s: "separated '', '' (constructor_parameters var_variant) = ''Token name, Expression initializer''"
    unfolding c by simp
  have f: "field_assignments var_variant = [''this.name = name;'', ''this.initializer = initializer;'']"
    by (simp add: field_assignments_def var_variant_def)
  have d: "final_declarations var_variant = [''final Token name;'', ''final Expression initializer;'']"
    by (simp add: final_declarations_def var_variant_def)
  show ?thesis
    using h1 h2 c s f d class_block_renders_fields_in_order [OF h1 h2]
    by blast
qed

section \<open>Determinism\<close>

lemma define_ast_success:
  assumes "ast \<noteq> []" "path_join output_dir (bn @ ''.java'') \<notin> unwritable w"
  shows "\<exists>body. define_ast uf output_dir bn ast w
           = (Inr (), w\<lparr>files := (files w)(path_join output_dir (bn @ ''.java'') \<mapsto> body)\<rparr>)
         \<and> emitted_text uf output_dir bn ast w = Some body"
proof -
  obtain a as where ast: "ast = a # as"
    using assms(1) by (cases ast) auto
  show ?thesis
    unfolding ast emitted_text_Cons [OF assms(2)] define_ast_Cons [OF assms(2)]
    by blast
qed

text \<open>
  C6. The emitted text is a function of the base name and the variant list alone: for
  equal base names and equal non-empty variant lists the texts written are the same,
  whatever the output directories and whatever the two worlds held before (the paths
  being writable); and running the emitter a second time on the world that the first
  run left changes nothing.
\<close>

theorem rendering_is_deterministic:
  assumes "bn1 = bn2" and "ast1 = ast2" and "ast1 \<noteq> []"
    and "path_join dir1 (bn1 @ ''.java'') \<notin> unwritable w1"
    and "path_join dir2 (bn2 @ ''.java'') \<notin> unwritable w2"
  shows "emitted_text uf dir1 bn1 ast1 w1 = emitted_text uf dir2 bn2 ast2 w2
         \<and> emitted_text uf dir1 bn1 ast1 w1 \<noteq> None
         \<and> define_ast uf dir1 bn1 ast1 (snd (define_ast uf dir1 bn1 ast1 w1))
           = define_ast uf dir1 bn1 ast1 w1"
proof -
  obtain a as where ast: "ast1 = a # as"
    using assms(3) by (cases ast1) auto
  have e1: "emitted_text uf dir1 bn1 ast1 w1 = emitted_text uf dir2 bn2 ast2 w2"
    using emitted_text_Cons [OF assms(4), where a = a and as = as and uf = uf]
      emitted_text_Cons [OF assms(5), where a = a and as = as and uf = uf]
      assms(1,2) ast
    by simp
  have e2: "emitted_text uf dir1 bn1 ast1 w1 \<noteq> None"
    using emitted_text_Cons [OF assms(4), where a = a and as = as and uf = uf] ast by simp
  obtain body where run: "define_ast uf dir1 bn1 ast1 w1
           = (Inr (), w1\<lparr>files := (files w1)(path_join dir1 (bn1 @ ''.java'') \<mapsto> body)\<rparr>)"
    using define_ast_success [OF assms(3,4)] by blast
  have wr': "path_join dir1 (bn1 @ ''.java'')
             \<notin> unwritable (w1\<lparr>files := (files w1)(path_join dir1 (bn1 @ ''.java'') \<mapsto> body)\<rparr>)"
    using assms(4) by simp
  have "define_ast uf dir1 bn1 ast1 (w1\<lparr>files := (files w1)(path_join dir1 (bn1 @ ''.java'') \<mapsto> body)\<rparr>)
        = define_ast uf dir1 bn1 ast1 w1"
    using run unfolding ast define_ast_Cons [OF wr'] define_ast_Cons [OF assms(4)]
    by simp
  with run e1 e2 show ?thesis by simp
qed

theorem rendering_is_deterministic_witness:
  "''Statement'' = ''Statement''
   \<and> build_statements_default = build_statements ''Statement''
   \<and> build_statements_default \<noteq> []
   \<and> path_join ''out'' (''Statement'' @ ''.java'') \<notin> unwritable empty_world
   \<and> path_join ''gen'' (''Statement'' @ ''.java'')
       \<notin> unwritable (empty_world\<lparr>files := [''gen/Statement.java'' \<mapsto> ''old'']\<rparr>)
   \<and> emitted_text id ''out'' ''Statement'' build_statements_default empty_world
     = emitted_text id ''gen'' ''Statement'' (build_statements ''Statement'')
         (empty_world\<lparr>files := [''gen/Statement.java'' \<mapsto> ''old'']\<rparr>)"
proof -
  have h1: "''Statement'' = ''Statement''" by simp
  have h2: "build_statements_default = build_statements ''Statement''"
    by (simp add: build_statements_default_def)
  have h3: "build_statements_default \<noteq> []"
    by (simp add: build_statements_default_def build_statements_def)
  have h4: "path_join ''out'' (''Statement'' @ ''.java'') \<notin> unwritable empty_world"
    by (rule out_path_writable)
  have h5: "path_join ''gen'' (''Statement'' @ ''.java'')
       \<notin> unwritable (empty_world\<lparr>files := [''gen/Statement.java'' \<mapsto> ''old'']\<rparr>)"
    by (simp add: empty_world_def)
  show ?thesis
    using h1 h2 h3 h4 h5 rendering_is_deterministic [OF h1 h2 h3 h4 h5]
    by blast
qed

lemma define_ast_no_exit: "fst (define_ast uf output_dir bn ast w) \<noteq> Inl (SystemExit n)"
proof (cases ast)
  case Nil
  then show ?thesis by (simp add: define_ast_Nil)
next
  case (Cons a as)
  then show ?thesis
    by (cases "path_join output_dir (bn @ ''.java'') \<in> unwritable w")
       (simp_all add: define_ast_unwritable define_ast_Cons)
qed

lemma define_ast_err_stream: "err_stream (snd (define_ast uf output_dir bn ast w)) = err_stream w"
proof (cases ast)
  case Nil
  then show ?thesis by (simp add: define_ast_Nil)
next
  case (Cons a as)
  then show ?thesis
    by (cases "path_join output_dir (bn @ ''.java'') \<in> unwritable w")
       (simp_all add: define_ast_unwritable define_ast_Cons)
qed

section \<open>The command line\<close>

text \<open>
  C8. \<open>argv\<close> is the script path followed by the positional arguments, so exactly one
  positional argument means two entries. With any other number of entries \<open>main\<close> writes
  the usage line to the error stream and ends with exit status 64, and leaves the files
  as they were: nothing is generated. With two entries \<open>main\<close> raises no exit of any
  status and writes nothing to the error stream.
\<close>

theorem main_usage_error:
  "(length argv \<noteq> 2 \<longrightarrow>
      main uf argv w
        = (Inl (SystemExit 64),
           w\<lparr>err_stream := err_stream w @ ''Usage: generate_ast <output directory>\<newline>''\<rparr>)
      \<and> exit_status (fst (main uf argv w)) = 64
      \<and> files (snd (main uf argv w)) = files w)
   \<and> (length argv = 2 \<longrightarrow>
        fst (main uf argv w) \<noteq> Inl (SystemExit n)
        \<and> err_stream (snd (main uf argv w)) = err_stream w)"
proof (intro conjI impI)
  assume "length argv \<noteq> 2"
  then show m: "main uf argv w
        = (Inl (SystemExit 64),
           w\<lparr>err_stream := err_stream w @ ''Usage: generate_ast <output directory>\<newline>''\<rparr>)"
    by (simp add: main_def)
  then show "exit_status (fst (main uf argv w)) = 64" by simp
  from m show "files (snd (main uf argv w)) = files w" by simp
next
  assume two: "length argv = 2"
  obtain r1 w1 where first: "define_ast uf (argv ! 1) ''Expression'' build_expressions_default w = (r1, w1)"
    by (cases "define_ast uf (argv ! 1) ''Expression'' build_expressions_default w")
  have r1: "r1 \<noteq> Inl (SystemExit n)" and s1: "err_stream w1 = err_stream w"
    using define_ast_no_exit [of uf "argv ! 1" "''Expression''" build_expressions_default w n]
      define_ast_err_stream [of uf "argv ! 1" "''Expression''" build_expressions_default w] first
    by simp_all
  show "fst (main uf argv w) \<noteq> Inl (SystemExit n)"
    using two first r1 define_ast_no_exit [of uf "argv ! 1" "''Statement''" build_statements_default w1 n]
    by (cases r1) (simp_all add: main_def)
  show "err_stream (snd (main uf argv w)) = err_stream w"
    using two first s1 define_ast_err_stream [of uf "argv ! 1" "''Statement''" build_statements_default w1]
    by (cases r1) (simp_all add: main_def)
qed

theorem main_usage_error_witness:
  "length [''generate_ast.py''] \<noteq> 2
   \<and> main id [''generate_ast.py''] empty_world
     = (Inl (SystemExit 64),
        empty_world\<lparr>err_stream := ''Usage: generate_ast <output directory>\<newline>''\<rparr>)
   \<and> length [''generate_ast.py'', ''a'', ''b''] \<noteq> 2
   \<and> exit_status (fst (main id [''generate_ast.py'', ''a'', ''b''] empty_world)) = 64
   \<and> files (snd (main id [''generate_ast.py'', ''a'', ''b''] empty_world)) = files empty_world
   \<and> length [''generate_ast.py'', ''out''] = 2
   \<and> fst (main id [''generate_ast.py'', ''out''] empty_world) \<noteq> Inl (SystemExit 64)"
  using main_usage_error [where argv = "[''generate_ast.py'']" and w = empty_world
      and uf = id and n = 64]
    main_usage_error [where argv = "[''generate_ast.py'', ''a'', ''b'']" and w = empty_world
      and uf = id and n = 64]
    main_usage_error [where argv = "[''generate_ast.py'', ''out'']" and w = empty_world
      and uf = id and n = 64]
  by (simp add: empty_world_def)

section \<open>The first element of the variant list\<close>

text \<open>
  C9. On the empty variant list \<open>define_ast\<close> raises \<open>IndexError\<close> and leaves the world
  as it was: no file is opened and nothing is written. On a non-empty list the read of
  the first element succeeds, so \<open>IndexError\<close> is not raised; with a writable output
  path the call returns and the output file holds the emitted text.
\<close>

theorem first_variant_access:
  "define_ast uf output_dir bn [] w = (Inl IndexError, w)
   \<and> (ast \<noteq> [] \<longrightarrow> fst (define_ast uf output_dir bn ast w) \<noteq> Inl IndexError)
   \<and> (ast \<noteq> [] \<and> path_join output_dir (bn @ ''.java'') \<notin> unwritable w \<longrightarrow>
        fst (define_ast uf output_dir bn ast w) = Inr ()
        \<and> emitted_text uf output_dir bn ast w \<noteq> None)"
proof (intro conjI impI)
  show "define_ast uf output_dir bn [] w = (Inl IndexError, w)"
    by (rule define_ast_Nil)
next
  assume "ast \<noteq> []"
  then obtain a as where ast: "ast = a # as"
    by (cases ast) auto
  show "fst (define_ast uf output_dir bn ast w) \<noteq> Inl IndexError"
    unfolding ast
    by (cases "path_join output_dir (bn @ ''.java'') \<in> unwritable w")
       (simp_all add: define_ast_unwritable define_ast_Cons)
next
  assume h: "ast \<noteq> [] \<and> path_join output_dir (bn @ ''.java'') \<notin> unwritable w"
  then obtain body where run: "define_ast uf output_dir bn ast w
           = (Inr (), w\<lparr>files := (files w)(path_join output_dir (bn @ ''.java'') \<mapsto> body)\<rparr>)"
    and out: "emitted_text uf output_dir bn ast w = Some body"
    using define_ast_success [where ast = ast and output_dir = output_dir and bn = bn and w = w
        and uf = uf] by blast
  from run show "fst (define_ast uf output_dir bn ast w) = Inr ()" by simp
  from out show "emitted_text uf output_dir bn ast w \<noteq> None" by simp
qed

theorem first_variant_access_witness:
  "define_ast id ''out'' ''Expression'' [] empty_world = (Inl IndexError, empty_world)
   \<and> [literal_variant] \<noteq> []
   \<and> path_join ''out'' (''Expression'' @ ''.java'') \<notin> unwritable empty_world
   \<and> fst (define_ast id ''out'' ''Expression'' [literal_variant] empty_world) \<noteq> Inl IndexError
   \<and> fst (define_ast id ''out'' ''Expression'' [literal_variant] empty_world) = Inr ()
   \<and> emitted_text id ''out'' ''Expression'' [literal_variant] empty_world \<noteq> None"
  using first_variant_access [where output_dir = "''out''" and bn = "''Expression''"
      and w = empty_world and ast = "[literal_variant]" and uf = id]
    out_path_writable [of "''Expression''"]
  by simp

end
